theory Spec2Isabelle
  imports Complex_Main
begin

section \<open>Python values used by the downloader\<close>

subsection \<open>Strings\<close>

text \<open>
  A Python \<open>str\<close> is a sequence of Unicode code points, so a string is a list of code
  points. ASCII literals of the source are written with \<open>ascii\<close>; the Korean literals
  are given by their code points.
\<close>

type_synonym pystr = "nat list"

definition ascii :: "string \<Rightarrow> pystr" where
  "ascii s = map of_char s"

text \<open>The characters that \<open>str.strip()\<close> removes (those for which \<open>str.isspace\<close> holds).\<close>

definition isspace :: "nat \<Rightarrow> bool" where
  "isspace c \<longleftrightarrow>
     (9 \<le> c \<and> c \<le> 13) \<or> (28 \<le> c \<and> c \<le> 32) \<or> c = 133 \<or> c = 160 \<or> c = 5760 \<or>
     (8192 \<le> c \<and> c \<le> 8202) \<or> c = 8232 \<or> c = 8233 \<or> c = 8239 \<or> c = 8287 \<or> c = 12288"

definition strip :: "pystr \<Rightarrow> pystr" where
  "strip s = rev (dropWhile isspace (rev (dropWhile isspace s)))"

text \<open>\<open>str(n)\<close> for an \<open>int\<close>: the decimal digits, with a minus sign for a negative number.\<close>

fun str_nat :: "nat \<Rightarrow> pystr" where
  "str_nat n = (if n < 10 then [48 + n] else str_nat (n div 10) @ [48 + n mod 10])"

declare str_nat.simps [simp del]

definition str_int :: "int \<Rightarrow> pystr" where
  "str_int i = (if i < 0 then 45 # str_nat (nat (- i)) else str_nat (nat i))"

subsection \<open>Numbers\<close>

text \<open>
  Byte counts, speed and ETA are Python \<open>int\<close>s. The source divides with \<open>/\<close> (true
  division) and converts the quotient back with \<open>int(...)\<close>, which truncates toward zero.
  The quotient is taken exactly here, as a rational number; division by zero raises.
  Python computes the quotient in binary floating point; the rounding of that quotient is
  not part of this model.
\<close>

datatype pyerr = ZeroDivisionError

definition truediv :: "int \<Rightarrow> int \<Rightarrow> pyerr + rat" where
  "truediv a b = (if b = 0 then Inl ZeroDivisionError else Inr (of_int a / of_int b))"

definition py_int :: "rat \<Rightarrow> int" where
  "py_int x = (if 0 \<le> x then \<lfloor>x\<rfloor> else \<lceil>x\<rceil>)"

subsection \<open>Dictionaries\<close>

text \<open>
  A key of a payload dictionary is absent, present with the value \<open>None\<close>, or present
  with a value. \<open>d.get(k)\<close> returns \<open>None\<close> in the first two cases.
\<close>

datatype 'a entry = Absent | PyNone | Value 'a

fun get :: "'a entry \<Rightarrow> 'a option" where
  "get Absent = None"
| "get PyNone = None"
| "get (Value v) = Some v"

text \<open>\<open>x or 0\<close> for an optional \<open>int\<close>: \<open>None\<close> and \<open>0\<close> are falsy.\<close>

fun or_zero :: "int option \<Rightarrow> int" where
  "or_zero None = 0"
| "or_zero (Some n) = n"

text \<open>\<open>x or y\<close> for optional \<open>int\<close>s: the first operand when it is truthy, else the second.\<close>

fun py_or :: "int option \<Rightarrow> int option \<Rightarrow> int option" where
  "py_or (Some n) y = (if n \<noteq> 0 then Some n else y)"
| "py_or None y = y"

section \<open>The job runner: \<open>DownloadWorker\<close>\<close>

subsection \<open>Signals\<close>

text \<open>
  The four signals of the worker: \<open>progress(int, str)\<close>, \<open>log(str)\<close>, \<open>finished()\<close> and
  \<open>error(str)\<close>. What a method emits is the list of its emissions, in order.
\<close>

datatype signal = Progress int pystr | Log pystr | Finished | Error pystr

subsection \<open>The progress payload of the engine\<close>

record info =
  playlist_index :: "int entry"
  playlist_count :: "int entry"

record payload =
  status :: "pystr entry"
  total_bytes :: "int entry"
  total_bytes_estimate :: "int entry"
  downloaded_bytes :: "int entry"
  speed :: "int entry"
  eta :: "int entry"
  info_dict :: "info entry"

text \<open>The empty dictionary \<open>{}\<close> of \<open>d.get("info_dict") or {}\<close>.\<close>

definition empty_info :: info where
  "empty_info = \<lparr>playlist_index = Absent, playlist_count = Absent\<rparr>"

subsection \<open>\<open>DownloadWorker._progress_hook\<close>\<close>

definition merging :: pystr where
  "merging = [0xBCD1, 0xD569, 0x20, 0xC911]"

text \<open>
  Both branches of the hook build the playlist prefix in the same way:
  \<open>[index/count]\<close> and a space when both are \<open>int\<close>s and the count is positive.
\<close>

definition playlist_prefix :: "payload \<Rightarrow> pystr" where
  "playlist_prefix d =
     (let info = (case get (info_dict d) of Some i \<Rightarrow> i | None \<Rightarrow> empty_info);
          p_index = get (playlist_index info);
          p_count = get (playlist_count info)
      in case (p_index, p_count) of
           (Some i, Some c) \<Rightarrow>
             (if c > 0 then ascii ''['' @ str_int i @ ascii ''/'' @ str_int c @ ascii ''] '' else [])
         | _ \<Rightarrow> [])"

definition percent_of :: "int \<Rightarrow> int \<Rightarrow> pyerr + int" where
  "percent_of downloaded tot =
     (if tot \<noteq> 0 then
        (case truediv (downloaded * 100) tot of Inl e \<Rightarrow> Inl e | Inr q \<Rightarrow> Inr (py_int q))
      else Inr 0)"

definition speed_text :: "int option \<Rightarrow> pyerr + pystr" where
  "speed_text sp =
     (case sp of
        None \<Rightarrow> Inr []
      | Some v \<Rightarrow>
          (if v \<noteq> 0 then
             (case truediv v 1024 of
                Inl e \<Rightarrow> Inl e
              | Inr q \<Rightarrow> Inr (str_int (py_int q) @ ascii '' KB/s ''))
           else Inr []))"

definition eta_text :: "int option \<Rightarrow> pystr" where
  "eta_text e = (case e of None \<Rightarrow> [] | Some t \<Rightarrow> ascii ''ETA '' @ str_int t @ ascii ''s'')"

definition progress_hook :: "payload \<Rightarrow> pyerr + signal list" where
  "progress_hook d =
     (if get (status d) = Some (ascii ''downloading'') then
        (let tot = or_zero (py_or (get (total_bytes d)) (get (total_bytes_estimate d)));
             downloaded = or_zero (get (downloaded_bytes d))
         in case percent_of downloaded tot of
              Inl e \<Rightarrow> Inl e
            | Inr percent \<Rightarrow>
                (case speed_text (get (speed d)) of
                   Inl e \<Rightarrow> Inl e
                 | Inr sp \<Rightarrow>
                     Inr [Progress percent
                            (strip (playlist_prefix d @ sp @ eta_text (get (eta d))))]))
      else if get (status d) = Some (ascii ''finished'') then
        Inr [Progress 100 (strip (playlist_prefix d @ merging))]
      else Inr [])"

subsection \<open>The logger bridge and the engine\<close>

text \<open>
  The download engine (\<open>yt_dlp.YoutubeDL\<close>) is an external library. What the worker
  hands to it is the option dictionary; what it does during the blocking call
  \<open>ydl.download([url])\<close> is a sequence of calls back into the worker (the progress hook
  and the three logger methods), after which the call returns or raises an exception,
  given here by its \<open>str(e)\<close>. Constructing \<open>YoutubeDL(ydl_opts)\<close> may raise as well.
  The call is blocking: \<open>run\<close> goes on only once it has returned or raised. An
  exception is an instance of \<open>Exception\<close>, the class that the \<open>except\<close> clause of
  \<open>run\<close> names. Logger messages are strings; a \<open>bytes\<close> message is decoded before it
  is forwarded.
\<close>

record ydl_opts =
  outtmpl :: pystr
  ignoreerrors :: bool
  merge_output_format :: "pystr option"
  format :: pystr

datatype callback = Hook payload | Debug pystr | Warning pystr | ErrorMsg pystr

datatype outcome = Returned | Raised pystr

datatype engine_run = ConstructRaised pystr | Downloaded "callback list" outcome

record environment =
  path_join :: "pystr \<Rightarrow> pystr \<Rightarrow> pystr"
  path_isdir :: "pystr \<Rightarrow> bool"
  youtube_dl :: "ydl_opts \<Rightarrow> pystr \<Rightarrow> engine_run"

definition warning_tag :: pystr where
  "warning_tag = [0xACBD, 0xACE0, 0x3A, 0x20]"

definition error_tag :: pystr where
  "error_tag = [0xC624, 0xB958, 0x3A, 0x20]"

definition collecting_info :: pystr where
  "collecting_info = [0xC815, 0xBCF4, 0x20, 0xC218, 0xC9D1, 0x20, 0xC911]"

text \<open>\<open>str(e)\<close> of an exception raised by the hook itself.\<close>

fun str_pyerr :: "pyerr \<Rightarrow> pystr" where
  "str_pyerr ZeroDivisionError = ascii ''division by zero''"

text \<open>One call of the engine into the worker: the signals it emits, or the exception.\<close>

fun on_callback :: "callback \<Rightarrow> pyerr + signal list" where
  "on_callback (Hook d) = progress_hook d"
| "on_callback (Debug msg) = Inr [Log msg]"
| "on_callback (Warning msg) = Inr [Log (warning_tag @ msg)]"
| "on_callback (ErrorMsg msg) = Inr [Log (error_tag @ msg)]"

text \<open>
  The calls of one download, in order. An exception raised inside a callback leaves the
  engine call at that point.
\<close>

fun during_download :: "callback list \<Rightarrow> signal list \<times> pyerr option" where
  "during_download [] = ([], None)"
| "during_download (c # cs) =
     (case on_callback c of
        Inl e \<Rightarrow> ([], Some e)
      | Inr sigs \<Rightarrow> (case during_download cs of (rest, r) \<Rightarrow> (sigs @ rest, r)))"

subsection \<open>\<open>DownloadWorker.run\<close>\<close>

record download_worker =
  url :: pystr
  output_dir :: pystr
  ffmpeg_available :: bool

definition build_opts :: "environment \<Rightarrow> download_worker \<Rightarrow> ydl_opts" where
  "build_opts env w =
     (let tmpl = path_join env (output_dir w) (ascii ''%(title)s.%(ext)s'')
      in if ffmpeg_available w then
           \<lparr>outtmpl = tmpl, ignoreerrors = True,
            merge_output_format = Some (ascii ''mp4''),
            format = ascii ''bestvideo[ext=mp4]+bestaudio[ext=m4a]/best[ext=mp4]/best''\<rparr>
         else
           \<lparr>outtmpl = tmpl, ignoreerrors = True,
            merge_output_format = None,
            format = ascii ''best[ext=mp4]/best''\<rparr>)"

text \<open>What \<open>run\<close> emits, given how the engine behaved on the options it was handed.\<close>

fun emitted :: "engine_run \<Rightarrow> signal list" where
  "emitted (ConstructRaised msg) = [Error msg]"
| "emitted (Downloaded cs out) =
     Log collecting_info #
     (case during_download cs of
        (sigs, Some e) \<Rightarrow> sigs @ [Error (str_pyerr e)]
      | (sigs, None) \<Rightarrow>
          sigs @ (case out of Returned \<Rightarrow> [Finished] | Raised msg \<Rightarrow> [Error msg]))"

definition run :: "environment \<Rightarrow> download_worker \<Rightarrow> signal list" where
  "run env w = emitted (youtube_dl env (build_opts env w) (url w))"

fun is_terminal :: "signal \<Rightarrow> bool" where
  "is_terminal Finished = True"
| "is_terminal (Error msg) = True"
| "is_terminal (Progress v desc) = False"
| "is_terminal (Log text) = False"

section \<open>The controller: \<open>MainWindow\<close>\<close>

text \<open>
  The window is the state of its widgets and its two fields \<open>thread\<close> and \<open>worker\<close>.
  What it does to the outside (a modal warning box, starting and stopping the thread) is
  recorded in \<open>effects\<close>, in order.
\<close>

datatype qthread = QThread

datatype effect =
  WarningBox pystr pystr | ThreadStart download_worker | ThreadQuit | ThreadWait

record main_window =
  url_edit :: pystr
  path_edit :: pystr
  start_btn :: bool
  progress_bar :: int
  status_label :: pystr
  log_view :: "pystr list"
  thread :: "qthread option"
  worker :: "download_worker option"
  ffmpeg_detected :: bool
  effects :: "effect list"

text \<open>
  \<open>QProgressBar.setValue\<close> on the bar built with \<open>setRange(0, 100)\<close>: Qt leaves the value
  as it is when the new one is outside the range.
\<close>

definition setValue :: "int \<Rightarrow> int \<Rightarrow> int" where
  "setValue v current = (if 0 \<le> v \<and> v \<le> 100 then v else current)"

definition input_error :: pystr where
  "input_error = [0xC785, 0xB825, 0x20, 0xC624, 0xB958]"

definition enter_url :: pystr where
  "enter_url = [0x55, 0x52, 0x4C, 0xC744, 0x20, 0xC785, 0xB825, 0xD558, 0xC138, 0xC694, 0x2E]"

definition choose_folder :: pystr where
  "choose_folder =
     [0xB2E4, 0xC6B4, 0xB85C, 0xB4DC, 0x20, 0xD3F4, 0xB354, 0xB97C, 0x20, 0xC120, 0xD0DD,
      0xD558, 0xC138, 0xC694, 0x2E]"

definition invalid_folder :: pystr where
  "invalid_folder =
     [0xC720, 0xD6A8, 0xD55C, 0x20, 0xD3F4, 0xB354, 0xAC00, 0x20, 0xC544, 0xB2D9, 0xB2C8,
      0xB2E4, 0x2E]"

definition starting :: pystr where
  "starting = [0xC2DC, 0xC791, 0x20, 0xC911]"

definition progress_text :: pystr where
  "progress_text = [0xC9C4, 0xD589, 0xB960, 0x20]"

definition done_text :: pystr where
  "done_text = [0xC644, 0xB8CC]"

definition error_text :: pystr where
  "error_text = [0xC624, 0xB958]"

definition on_start :: "environment \<Rightarrow> main_window \<Rightarrow> main_window" where
  "on_start env s =
     (let u = strip (url_edit s); out = strip (path_edit s)
      in if u = [] then s\<lparr>effects := effects s @ [WarningBox input_error enter_url]\<rparr>
         else if out = [] then s\<lparr>effects := effects s @ [WarningBox input_error choose_folder]\<rparr>
         else if \<not> path_isdir env out then
           s\<lparr>effects := effects s @ [WarningBox input_error invalid_folder]\<rparr>
         else
           (let w = \<lparr>url = u, output_dir = out, ffmpeg_available = ffmpeg_detected s\<rparr>
            in s\<lparr>start_btn := False,
                 progress_bar := setValue 0 (progress_bar s),
                 status_label := starting,
                 log_view := [],
                 thread := Some QThread,
                 worker := Some w,
                 effects := effects s @ [ThreadStart w]\<rparr>))"

definition on_progress :: "int \<Rightarrow> pystr \<Rightarrow> main_window \<Rightarrow> main_window" where
  "on_progress v desc s =
     s\<lparr>progress_bar := setValue v (progress_bar s),
       status_label :=
         progress_text @ str_int v @ ascii ''%'' @ (if desc \<noteq> [] then ascii '' - '' @ desc else [])\<rparr>"

definition append_log :: "pystr \<Rightarrow> main_window \<Rightarrow> main_window" where
  "append_log text s = s\<lparr>log_view := log_view s @ [text]\<rparr>"

text \<open>Both terminal handlers end alike: quit and join the thread, then drop both fields.\<close>

definition release :: "main_window \<Rightarrow> main_window" where
  "release s =
     (if thread s \<noteq> None then
        s\<lparr>thread := None, worker := None, effects := effects s @ [ThreadQuit, ThreadWait]\<rparr>
      else s)"

definition on_finished :: "main_window \<Rightarrow> main_window" where
  "on_finished s =
     release ((append_log done_text s)\<lparr>status_label := done_text, start_btn := True\<rparr>)"

definition on_error :: "pystr \<Rightarrow> main_window \<Rightarrow> main_window" where
  "on_error message s =
     release ((append_log (error_tag @ message) s)\<lparr>status_label := error_text, start_btn := True\<rparr>)"

text \<open>
  The connections made in \<open>on_start\<close>: each signal of the worker runs one slot of the
  window. The worker lives in its own thread, so the slots run on the window's thread in
  the order of emission.
\<close>

fun slot :: "signal \<Rightarrow> main_window \<Rightarrow> main_window" where
  "slot (Progress v desc) s = on_progress v desc s"
| "slot (Log text) s = append_log text s"
| "slot Finished s = on_finished s"
| "slot (Error message) s = on_error message s"

fun receive :: "signal list \<Rightarrow> main_window \<Rightarrow> main_window" where
  "receive [] s = s"
| "receive (x # xs) s = receive xs (slot x s)"

section \<open>The specification's wording, and example inputs\<close>

text \<open>
  The percent as the specification words it: \<open>floor(downloaded * 100 / total)\<close>, where
  the total is \<open>total_bytes\<close> or, when that is absent, \<open>total_bytes_estimate\<close>, and 0 when
  no total is known. A total of 0 says nothing about the size and counts as not known.
\<close>

fun known :: "int entry \<Rightarrow> int option" where
  "known (Value t) = (if t = 0 then None else Some t)"
| "known PyNone = None"
| "known Absent = None"

definition known_total :: "payload \<Rightarrow> int option" where
  "known_total d =
     (case known (total_bytes d) of
        Some t \<Rightarrow> Some t
      | None \<Rightarrow> known (total_bytes_estimate d))"

definition downloaded_count :: "payload \<Rightarrow> int" where
  "downloaded_count d = (case downloaded_bytes d of Value n \<Rightarrow> n | _ \<Rightarrow> 0)"




text \<open>The marker \<open>[index/count]\<close> of a playlist item.\<close>

definition marker :: "int \<Rightarrow> int \<Rightarrow> pystr" where
  "marker k c = ascii ''['' @ str_int k @ ascii ''/'' @ str_int c @ ascii '']''"

text \<open>A payload with no entries but its status.\<close>

definition bare :: "pystr \<Rightarrow> payload" where
  "bare st =
     \<lparr>status = Value st, total_bytes = Absent, total_bytes_estimate = Absent,
      downloaded_bytes = Absent, speed = Absent, eta = Absent, info_dict = Absent\<rparr>"

text \<open>Half of 1000 bytes downloaded.\<close>

definition half_done :: payload where
  "half_done = (bare (ascii ''downloading''))\<lparr>total_bytes := Value 1000, downloaded_bytes := Value 500\<rparr>"




text \<open>An engine that reports one item and returns, one that raises, and a directory.\<close>

definition network_down :: pystr where
  "network_down = ascii ''network down''"

definition test_env :: "outcome \<Rightarrow> environment" where
  "test_env out =
     \<lparr>path_join = (\<lambda>a b. a @ ascii ''/'' @ b),
      path_isdir = (\<lambda>p. p = ascii ''/tmp''),
      youtube_dl = (\<lambda>opts u. Downloaded [Hook half_done, Hook (bare (ascii ''finished''))] out)\<rparr>"

definition idle_window :: "pystr \<Rightarrow> pystr \<Rightarrow> main_window" where
  "idle_window u p =
     \<lparr>url_edit = u, path_edit = p, start_btn = True, progress_bar = 37,
      status_label = [], log_view = [ascii ''old''], thread = None, worker = None,
      ffmpeg_detected = False, effects = []\<rparr>"

section \<open>Properties of the progress hook\<close>

subsection \<open>Strings\<close>



lemma strip_id:
  assumes "s \<noteq> []" "\<not> isspace (hd s)" "\<not> isspace (last s)"
  shows "strip s = s"
proof -
  have a: "dropWhile isspace s = s" using assms by (cases s) auto
  have c: "dropWhile isspace (rev s) = rev s"
    using assms by (metis dropWhile_eq_self_iff hd_rev)
  show ?thesis unfolding strip_def a c by simp
qed

lemma str_nat_digits: "set (str_nat n) \<subseteq> {48..57}"
proof (induction n rule: str_nat.induct)
  case (1 n)
  show ?case
  proof (cases "n < 10")
    case True
    then show ?thesis by (subst str_nat.simps) auto
  next
    case False
    have "n mod 10 < 10" by simp
    then have "48 + n mod 10 \<in> {48..57}" by auto
    with False 1 show ?thesis by (subst str_nat.simps) auto
  qed
qed

lemma str_nat_nonempty: "str_nat n \<noteq> []"
  by (subst str_nat.simps) auto

lemma str_int_chars: "set (str_int i) \<subseteq> insert 45 {48..57}"
  using str_nat_digits unfolding str_int_def by (auto split: if_splits)

subsection \<open>The percent\<close>

lemma progress_hook_total: "\<exists>sigs. progress_hook d = Inr sigs"
  by (auto simp: progress_hook_def percent_of_def speed_text_def truediv_def Let_def
      split: option.splits sum.splits)

lemma ascii_status_neq [simp]: "ascii ''finished'' \<noteq> ascii ''downloading''"
  by (simp add: ascii_def)

lemma percent_of_Inr:
  "percent_of a b = Inr (if b \<noteq> 0 then py_int (of_int (a * 100) / of_int b) else 0)"
  by (simp add: percent_of_def truediv_def)

lemma speed_text_Inr: "\<exists>sp. speed_text x = Inr sp \<and> 91 \<notin> set sp"
proof (cases x)
  case None
  then show ?thesis by (simp add: speed_text_def)
next
  case (Some v)
  have "91 \<notin> set (str_int q)" for q
    using str_int_chars[of q] by auto
  then show ?thesis using Some
    by (simp add: speed_text_def truediv_def ascii_def)
qed


lemma total_in_use:
  "or_zero (py_or (get (total_bytes d)) (get (total_bytes_estimate d))) =
     (case known_total d of None \<Rightarrow> 0 | Some t \<Rightarrow> t)"
  by (cases "total_bytes d"; cases "total_bytes_estimate d") (auto simp: known_total_def)

lemma known_total_nonzero: "known_total d = Some t \<Longrightarrow> t \<noteq> 0"
  by (cases "total_bytes d"; cases "total_bytes_estimate d")
     (auto simp: known_total_def split: if_splits)

lemma downloaded_in_use: "or_zero (get (downloaded_bytes d)) = downloaded_count d"
  by (cases "downloaded_bytes d") (auto simp: downloaded_count_def)

lemma hook_downloading:
  assumes "get (status d) = Some (ascii ''downloading'')"
  shows "\<exists>sp. speed_text (get (speed d)) = Inr sp \<and> 91 \<notin> set sp \<and>
     progress_hook d =
       Inr [Progress (case known_total d of None \<Rightarrow> 0
                      | Some t \<Rightarrow> py_int (of_int (downloaded_count d * 100) / of_int t))
              (strip (playlist_prefix d @ sp @ eta_text (get (eta d))))]"
proof -
  obtain sp where sp: "speed_text (get (speed d)) = Inr sp" "91 \<notin> set sp"
    using speed_text_Inr by blast
  show ?thesis
    using assms sp known_total_nonzero[of d]
    by (auto simp: progress_hook_def percent_of_Inr total_in_use downloaded_in_use Let_def
        split: option.splits)
qed

lemma hook_finished:
  assumes "get (status d) = Some (ascii ''finished'')"
  shows "progress_hook d = Inr [Progress 100 (strip (playlist_prefix d @ merging))]"
  using assms by (simp add: progress_hook_def)

lemma hook_other:
  assumes "get (status d) \<noteq> Some (ascii ''downloading'')" "get (status d) \<noteq> Some (ascii ''finished'')"
  shows "progress_hook d = Inr []"
  using assms by (simp add: progress_hook_def)






subsection \<open>Annotations\<close>

lemma isspace_simps [simp]: "\<not> isspace 91" "\<not> isspace 93" "isspace 32" "\<not> isspace 0xBCD1" "\<not> isspace 0xC911"
  by (simp_all add: isspace_def)

lemma prefix_shape:
  "playlist_prefix d = [] \<or> (\<exists>k c. playlist_prefix d = marker k c @ [32])"
  by (auto simp: playlist_prefix_def marker_def ascii_def Let_def split: option.splits)










lemma strip_finished: "strip (playlist_prefix d @ merging) = playlist_prefix d @ merging"
proof (rule strip_id)
  show "playlist_prefix d @ merging \<noteq> []" by (simp add: merging_def)
  show "\<not> isspace (hd (playlist_prefix d @ merging))"
    using prefix_shape[of d] by (auto simp: merging_def marker_def ascii_def)
  show "\<not> isspace (last (playlist_prefix d @ merging))"
    by (simp add: merging_def)
qed

lemma progress_label_neq_done:
  "status_label (on_progress v desc s) \<noteq> status_label (on_finished s')"
proof -
  have "hd (status_label (on_progress v desc s)) = 0xC9C4"
    by (simp add: on_progress_def progress_text_def)
  moreover have "hd (status_label (on_finished s')) = 0xC644"
    by (simp add: on_finished_def release_def append_log_def done_text_def)
  ultimately show ?thesis by (metis numeral_eq_iff semiring_norm(88) num.inject)
qed

text \<open>
  Claim C9. A payload with status \<open>finished\<close> makes the hook emit one progress event
  with percent 100 whose annotation is not empty and ends with the merge-pending text.
  The status line this event produces differs from the one the terminal success event
  produces, which takes no annotation.
\<close>

theorem finished_is_merge_pending:
  assumes "get (status d) = Some (ascii ''finished'')"
  shows "\<exists>ann pre. progress_hook d = Inr [Progress 100 ann] \<and> ann = pre @ merging \<and> ann \<noteq> [] \<and>
           status_label (on_progress 100 ann s) \<noteq> status_label (on_finished s')"
proof -
  have "progress_hook d = Inr [Progress 100 (playlist_prefix d @ merging)]"
    using hook_finished[OF assms] strip_finished by simp
  moreover have "playlist_prefix d @ merging \<noteq> []" by (simp add: merging_def)
  ultimately show ?thesis using progress_label_neq_done by blast
qed

theorem finished_is_merge_pending_witness:
  "get (status (bare (ascii ''finished''))) = Some (ascii ''finished'') \<and>
   progress_hook (bare (ascii ''finished'')) = Inr [Progress 100 merging] \<and>
   merging \<noteq> [] \<and>
   status_label (on_progress 100 merging (idle_window [] [])) \<noteq>
     status_label (on_finished (idle_window [] []))"
proof -
  have a: "get (status (bare (ascii ''finished''))) = Some (ascii ''finished'')"
    by (simp add: bare_def)
  from finished_is_merge_pending [OF a, of "idle_window [] []" "idle_window [] []"]
  obtain ann pre where h: "progress_hook (bare (ascii ''finished'')) = Inr [Progress 100 ann]"
    "ann = pre @ merging" "ann \<noteq> []"
    "status_label (on_progress 100 ann (idle_window [] [])) \<noteq>
       status_label (on_finished (idle_window [] []))"
    by blast
  have b: "progress_hook (bare (ascii ''finished'')) = Inr [Progress 100 merging]"
    by (simp add: bare_def progress_hook_def playlist_prefix_def empty_info_def ascii_def
        merging_def strip_def isspace_def)
  with h have "ann = merging" by simp
  with h b a show ?thesis by simp
qed

lemma prefix_update [simp]: "playlist_prefix (d\<lparr>downloaded_bytes := x\<rparr>) = playlist_prefix d"
  by (simp add: playlist_prefix_def)




section \<open>Properties of a job\<close>

lemma hook_no_terminal:
  assumes "progress_hook d = Inr sigs"
  shows "\<forall>x\<in>set sigs. \<not> is_terminal x"
proof -
  consider (dl) "get (status d) = Some (ascii ''downloading'')"
    | (fin) "get (status d) = Some (ascii ''finished'')"
    | (other) "get (status d) \<noteq> Some (ascii ''downloading'')" "get (status d) \<noteq> Some (ascii ''finished'')"
    by blast
  then show ?thesis
  proof cases
    case dl
    from hook_downloading[OF dl] assms show ?thesis by auto
  next
    case fin
    from hook_finished[OF fin] assms show ?thesis by auto
  next
    case other
    from hook_other[OF other] assms show ?thesis by auto
  qed
qed

lemma on_callback_ok: "\<exists>sigs. on_callback c = Inr sigs \<and> (\<forall>x\<in>set sigs. \<not> is_terminal x)"
proof (cases c)
  case (Hook d)
  then show ?thesis using progress_hook_total[of d] hook_no_terminal[of d] by auto
qed simp_all

lemma during_download_ok:
  "\<exists>sigs. during_download cs = (sigs, None) \<and> (\<forall>x\<in>set sigs. \<not> is_terminal x)"
proof (induction cs)
  case Nil
  show ?case by simp
next
  case (Cons c cs)
  obtain a where a: "on_callback c = Inr a" "\<forall>x\<in>set a. \<not> is_terminal x"
    using on_callback_ok by blast
  obtain b where b: "during_download cs = (b, None)" "\<forall>x\<in>set b. \<not> is_terminal x"
    using Cons.IH by blast
  show ?case using a b by auto
qed

lemma emitted_downloaded:
  "emitted (Downloaded cs out) =
     (Log collecting_info # fst (during_download cs)) @
       [case out of Returned \<Rightarrow> Finished | Raised msg \<Rightarrow> Error msg]"
proof -
  obtain sigs where "during_download cs = (sigs, None)" using during_download_ok by blast
  then show ?thesis by (cases out) simp_all
qed

lemma emitted_shape:
  "\<exists>pre t. emitted r = pre @ [t] \<and> is_terminal t \<and> (\<forall>x\<in>set pre. \<not> is_terminal x)"
proof (cases r)
  case (ConstructRaised msg)
  then have "emitted r = [] @ [Error msg]" by simp
  then show ?thesis by (metis empty_iff is_terminal.simps(2) list.set(1))
next
  case (Downloaded cs out)
  obtain sigs where s: "during_download cs = (sigs, None)" "\<forall>x\<in>set sigs. \<not> is_terminal x"
    using during_download_ok by blast
  let ?t = "case out of Returned \<Rightarrow> Finished | Raised msg \<Rightarrow> Error msg"
  have "emitted r = (Log collecting_info # sigs) @ [?t]"
    using Downloaded s by (cases out) simp_all
  moreover have "is_terminal ?t" by (cases out) simp_all
  moreover have "\<forall>x\<in>set (Log collecting_info # sigs). \<not> is_terminal x" using s by simp
  ultimately show ?thesis by blast
qed

lemma run_shape:
  "\<exists>pre t. run env w = pre @ [t] \<and> is_terminal t \<and> (\<forall>x\<in>set pre. \<not> is_terminal x)"
  unfolding run_def by (rule emitted_shape)

text \<open>
  Claim C1. Every invocation of \<open>run\<close> emits exactly one terminal signal, \<open>finished\<close>
  or \<open>error\<close>, and it is the last signal of the run.
\<close>

theorem exactly_one_terminal:
  "length (filter is_terminal (run env w)) = 1 \<and> is_terminal (last (run env w))"
proof -
  obtain pre t where h: "run env w = pre @ [t]" "is_terminal t" "\<forall>x\<in>set pre. \<not> is_terminal x"
    using run_shape by blast
  then have "filter is_terminal pre = []" by (simp add: filter_empty_conv)
  with h show ?thesis by simp
qed

lemma test_run_returned:
  "run (test_env Returned) w =
     [Log collecting_info, Progress 50 [], Progress 100 merging, Finished]"
  by (simp add: run_def test_env_def half_done_def bare_def progress_hook_def percent_of_def
      truediv_def py_int_def speed_text_def eta_text_def playlist_prefix_def empty_info_def
      ascii_def merging_def strip_def isspace_def)

lemma test_run_raised:
  "run (test_env (Raised msg)) w =
     [Log collecting_info, Progress 50 [], Progress 100 merging, Error msg]"
  by (simp add: run_def test_env_def half_done_def bare_def progress_hook_def percent_of_def
      truediv_def py_int_def speed_text_def eta_text_def playlist_prefix_def empty_info_def
      ascii_def merging_def strip_def isspace_def)

theorem exactly_one_terminal_witness:
  "run (test_env Returned) \<lparr>url = ascii ''u'', output_dir = ascii ''/tmp'', ffmpeg_available = False\<rparr> =
     [Log collecting_info, Progress 50 [], Progress 100 merging, Finished] \<and>
   length (filter is_terminal [Log collecting_info, Progress 50 [], Progress 100 merging, Finished]) = 1"
  using exactly_one_terminal [of "test_env Returned"
      "\<lparr>url = ascii ''u'', output_dir = ascii ''/tmp'', ffmpeg_available = False\<rparr>"]
  by (simp add: test_run_returned)

lemma release_facts:
  "thread (release s) = None" "start_btn (release s) = start_btn s"
  "thread s \<noteq> None \<Longrightarrow> worker (release s) = None"
  "ThreadStart w \<in> set (effects (release s)) \<longleftrightarrow> ThreadStart w \<in> set (effects s)"
  by (auto simp: release_def)

lemma on_error_facts:
  "start_btn (on_error msg s)" "thread (on_error msg s) = None"
  "thread s \<noteq> None \<Longrightarrow> worker (on_error msg s) = None"
  "ThreadStart w \<in> set (effects (on_error msg s)) \<longleftrightarrow> ThreadStart w \<in> set (effects s)"
  "last (log_view (on_error msg s)) = error_tag @ msg"
  by (simp_all add: on_error_def release_facts append_log_def)
     (simp add: release_def)

lemma on_finished_facts:
  "start_btn (on_finished s)" "thread (on_finished s) = None"
  "thread s \<noteq> None \<Longrightarrow> worker (on_finished s) = None"
  by (simp_all add: on_finished_def release_facts append_log_def)

text \<open>
  Claim C2. When the blocking download call raises, \<open>run\<close> emits the signals of the
  calls made so far and then \<open>error\<close> with the exception's message, and nothing after
  it. The slot for that signal enables the start button, drops the thread, and starts no
  thread: nothing is retried.
\<close>

theorem engine_error_reported:
  assumes "youtube_dl env (build_opts env w) (url w) = Downloaded cs (Raised msg)"
  shows "run env w = (Log collecting_info # fst (during_download cs)) @ [Error msg] \<and>
         (\<forall>x \<in> set (Log collecting_info # fst (during_download cs)). \<not> is_terminal x) \<and>
         start_btn (slot (Error msg) s) \<and> thread (slot (Error msg) s) = None \<and>
         (thread s \<noteq> None \<longrightarrow> worker (slot (Error msg) s) = None) \<and>
         (\<forall>w'. ThreadStart w' \<in> set (effects (slot (Error msg) s))
                 \<longrightarrow> ThreadStart w' \<in> set (effects s))"
proof -
  have "run env w = (Log collecting_info # fst (during_download cs)) @ [Error msg]"
    using assms by (simp add: run_def emitted_downloaded del: emitted.simps)
  moreover have "\<forall>x \<in> set (Log collecting_info # fst (during_download cs)). \<not> is_terminal x"
    using during_download_ok[of cs] by auto
  ultimately show ?thesis by (simp add: on_error_facts)
qed

theorem engine_error_reported_witness:
  "run (test_env (Raised network_down))
       \<lparr>url = ascii ''u'', output_dir = ascii ''/tmp'', ffmpeg_available = False\<rparr> =
     [Log collecting_info, Progress 50 [], Progress 100 merging, Error network_down] \<and>
   start_btn (slot (Error network_down) ((idle_window [] [])\<lparr>start_btn := False\<rparr>)) \<and>
   thread (slot (Error network_down) ((idle_window [] [])\<lparr>start_btn := False\<rparr>)) = None"
proof -
  let ?w = "\<lparr>url = ascii ''u'', output_dir = ascii ''/tmp'', ffmpeg_available = False\<rparr>"
  let ?cs = "[Hook half_done, Hook (bare (ascii ''finished''))]"
  have a: "youtube_dl (test_env (Raised network_down)) (build_opts (test_env (Raised network_down)) ?w) (url ?w)
             = Downloaded ?cs (Raised network_down)"
    by (simp add: test_env_def)
  have b: "fst (during_download ?cs) = [Progress 50 [], Progress 100 merging]"
    by (simp add: half_done_def bare_def progress_hook_def percent_of_def
      truediv_def py_int_def speed_text_def eta_text_def playlist_prefix_def empty_info_def
      ascii_def merging_def strip_def isspace_def)
  from engine_error_reported [OF a, of "(idle_window [] [])\<lparr>start_btn := False\<rparr>"] b
  show ?thesis by simp
qed

text \<open>
  Claim C4. Without the merge tool, the options handed to the engine select
  \<open>best[ext=mp4]/best\<close>: a format string with no \<open>+\<close> in it, hence no combination of a
  video and an audio stream, and no merge output format.
\<close>

theorem single_stream_without_merge:
  assumes "\<not> ffmpeg_available w"
  shows "run env w = emitted (youtube_dl env (build_opts env w) (url w)) \<and>
         format (build_opts env w) = ascii ''best[ext=mp4]/best'' \<and>
         of_char (CHR ''+'') \<notin> set (format (build_opts env w)) \<and>
         merge_output_format (build_opts env w) = None"
  using assms by (simp add: run_def build_opts_def Let_def ascii_def)

theorem single_stream_without_merge_witness:
  "\<not> ffmpeg_available \<lparr>url = ascii ''u'', output_dir = ascii ''/tmp'', ffmpeg_available = False\<rparr> \<and>
   format (build_opts (test_env Returned)
             \<lparr>url = ascii ''u'', output_dir = ascii ''/tmp'', ffmpeg_available = False\<rparr>) =
     ascii ''best[ext=mp4]/best'' \<and>
   merge_output_format (build_opts (test_env Returned)
             \<lparr>url = ascii ''u'', output_dir = ascii ''/tmp'', ffmpeg_available = False\<rparr>) = None"
proof -
  let ?w = "\<lparr>url = ascii ''u'', output_dir = ascii ''/tmp'', ffmpeg_available = False\<rparr>"
  have a: "\<not> ffmpeg_available ?w" by simp
  from single_stream_without_merge [OF a, of "test_env Returned"] a show ?thesis by simp
qed

text \<open>
  Claim C5. When the URL is empty, or the folder is empty or not an existing directory,
  \<open>on_start\<close> shows one warning box and returns: the thread and worker fields and the
  start button are as before, and no thread is started.
\<close>

theorem invalid_input_rejected:
  assumes "strip (url_edit s) = [] \<or> strip (path_edit s) = [] \<or>
           \<not> path_isdir env (strip (path_edit s))"
  shows "(\<exists>text. effects (on_start env s) = effects s @ [WarningBox input_error text]) \<and>
         thread (on_start env s) = thread s \<and> worker (on_start env s) = worker s \<and>
         start_btn (on_start env s) = start_btn s"
  using assms by (auto simp: on_start_def Let_def)

theorem invalid_input_rejected_witness:
  "strip (url_edit (idle_window [] (ascii ''/tmp''))) = [] \<and>
   effects (on_start (test_env Returned) (idle_window [] (ascii ''/tmp''))) =
     [WarningBox input_error enter_url] \<and>
   thread (on_start (test_env Returned) (idle_window [] (ascii ''/tmp''))) = None \<and>
   worker (on_start (test_env Returned) (idle_window [] (ascii ''/tmp''))) = None \<and>
   start_btn (on_start (test_env Returned) (idle_window [] (ascii ''/tmp'')))"
proof -
  let ?s = "idle_window [] (ascii ''/tmp'')"
  have a: "strip (url_edit ?s) = []" by (simp add: idle_window_def strip_def)
  then have b: "strip (url_edit ?s) = [] \<or> strip (path_edit ?s) = [] \<or>
           \<not> path_isdir (test_env Returned) (strip (path_edit ?s))" by simp
  have c: "effects (on_start (test_env Returned) ?s) = [WarningBox input_error enter_url]"
    using a by (simp add: on_start_def idle_window_def)
  from invalid_input_rejected [OF b] a c show ?thesis
    by (simp add: idle_window_def)
qed

lemma receive_append: "receive (xs @ ys) s = receive ys (receive xs s)"
  by (induction xs arbitrary: s) simp_all

lemma slot_keeps:
  assumes "\<not> is_terminal x"
  shows "start_btn (slot x s) = start_btn s \<and> thread (slot x s) = thread s \<and>
         worker (slot x s) = worker s"
  using assms by (cases x) (simp_all add: on_progress_def append_log_def)

lemma receive_keeps:
  assumes "\<forall>x\<in>set xs. \<not> is_terminal x"
  shows "start_btn (receive xs s) = start_btn s \<and> thread (receive xs s) = thread s \<and>
         worker (receive xs s) = worker s"
  using assms
proof (induction xs arbitrary: s)
  case Nil
  show ?case by simp
next
  case (Cons x xs)
  then have "\<not> is_terminal x" "\<forall>y\<in>set xs. \<not> is_terminal y" by simp_all
  with Cons.IH[of "slot x s"] slot_keeps[of x s] show ?case by simp
qed

lemma slot_terminal:
  assumes "is_terminal t"
  shows "start_btn (slot t s) \<and> thread (slot t s) = None \<and>
         (thread s \<noteq> None \<longrightarrow> worker (slot t s) = None)"
  using assms by (cases t) (simp_all add: on_error_facts on_finished_facts)

text \<open>
  Claim C6. For a URL and a folder that are not empty once trimmed, the folder being an
  existing directory, \<open>on_start\<close> disables the start button, sets the progress bar to 0,
  clears the log and starts one thread for one worker. While the signals of that worker's
  run are received the button stays disabled up to the last signal; the last one, the
  terminal signal, enables it and clears the thread and worker fields.
\<close>

theorem job_lifecycle:
  assumes "strip (url_edit s) \<noteq> []" and "strip (path_edit s) \<noteq> []"
    and "path_isdir env (strip (path_edit s))"
  shows "\<exists>w. url w = strip (url_edit s) \<and> output_dir w = strip (path_edit s) \<and>
           worker (on_start env s) = Some w \<and> thread (on_start env s) = Some QThread \<and>
           effects (on_start env s) = effects s @ [ThreadStart w] \<and>
           \<not> start_btn (on_start env s) \<and> progress_bar (on_start env s) = 0 \<and>
           log_view (on_start env s) = [] \<and>
           (\<forall>n < length (run env w).
              \<not> start_btn (receive (take n (run env w)) (on_start env s)) \<and>
              thread (receive (take n (run env w)) (on_start env s)) \<noteq> None) \<and>
           start_btn (receive (run env w) (on_start env s)) \<and>
           thread (receive (run env w) (on_start env s)) = None \<and>
           worker (receive (run env w) (on_start env s)) = None"
proof -
  let ?w = "\<lparr>url = strip (url_edit s), output_dir = strip (path_edit s),
             ffmpeg_available = ffmpeg_detected s\<rparr>"
  let ?s1 = "on_start env s"
  have start: "worker ?s1 = Some ?w" "thread ?s1 = Some QThread"
    "effects ?s1 = effects s @ [ThreadStart ?w]" "\<not> start_btn ?s1"
    "progress_bar ?s1 = 0" "log_view ?s1 = []"
    using assms by (simp_all add: on_start_def Let_def setValue_def)
  obtain pre t where sh: "run env ?w = pre @ [t]" "is_terminal t" "\<forall>x\<in>set pre. \<not> is_terminal x"
    using run_shape by blast
  have before: "\<not> start_btn (receive (take n (run env ?w)) ?s1) \<and>
                thread (receive (take n (run env ?w)) ?s1) \<noteq> None"
    if "n < length (run env ?w)" for n
  proof -
    from that sh(1) have "take n (run env ?w) = take n pre" by simp
    moreover have "\<forall>x\<in>set (take n pre). \<not> is_terminal x"
      using sh(3) by (meson in_set_takeD)
    ultimately show ?thesis using receive_keeps[of "take n pre" ?s1] start by simp
  qed
  have mid: "thread (receive pre ?s1) \<noteq> None"
    using receive_keeps[OF sh(3), of ?s1] start by simp
  have "receive (run env ?w) ?s1 = slot t (receive pre ?s1)"
    using sh(1) by (simp add: receive_append)
  with slot_terminal[OF sh(2), of "receive pre ?s1"] mid
  have after: "start_btn (receive (run env ?w) ?s1)" "thread (receive (run env ?w) ?s1) = None"
    "worker (receive (run env ?w) ?s1) = None"
    by simp_all
  show ?thesis
    by (rule exI[of _ ?w]) (use start before after in simp)
qed

theorem job_lifecycle_witness:
  "strip (url_edit (idle_window (ascii ''u'') (ascii '' /tmp''))) \<noteq> [] \<and>
   strip (path_edit (idle_window (ascii ''u'') (ascii '' /tmp''))) = ascii ''/tmp'' \<and>
   path_isdir (test_env Returned) (ascii ''/tmp'') \<and>
   \<not> start_btn (on_start (test_env Returned) (idle_window (ascii ''u'') (ascii '' /tmp''))) \<and>
   progress_bar (on_start (test_env Returned) (idle_window (ascii ''u'') (ascii '' /tmp''))) = 0 \<and>
   log_view (on_start (test_env Returned) (idle_window (ascii ''u'') (ascii '' /tmp''))) = [] \<and>
   \<not> start_btn (receive [Log collecting_info, Progress 50 [], Progress 100 merging]
        (on_start (test_env Returned) (idle_window (ascii ''u'') (ascii '' /tmp'')))) \<and>
   start_btn (receive [Log collecting_info, Progress 50 [], Progress 100 merging, Finished]
        (on_start (test_env Returned) (idle_window (ascii ''u'') (ascii '' /tmp'')))) \<and>
   thread (receive [Log collecting_info, Progress 50 [], Progress 100 merging, Finished]
        (on_start (test_env Returned) (idle_window (ascii ''u'') (ascii '' /tmp'')))) = None"
proof -
  let ?s = "idle_window (ascii ''u'') (ascii '' /tmp'')"
  let ?e = "test_env Returned"
  have a: "strip (url_edit ?s) \<noteq> []"
    by (simp add: idle_window_def strip_def ascii_def isspace_def)
  have b: "strip (path_edit ?s) = ascii ''/tmp''"
    by (simp add: idle_window_def strip_def ascii_def isspace_def)
  then have b': "strip (path_edit ?s) \<noteq> []" by (simp add: ascii_def)
  have c: "path_isdir ?e (ascii ''/tmp'')" by (simp add: test_env_def)
  then have c': "path_isdir ?e (strip (path_edit ?s))" using b by simp
  from job_lifecycle [OF a b' c'] obtain w where
    h: "\<not> start_btn (on_start ?e ?s)" "progress_bar (on_start ?e ?s) = 0"
       "log_view (on_start ?e ?s) = []"
       "\<forall>n < length (run ?e w). \<not> start_btn (receive (take n (run ?e w)) (on_start ?e ?s))"
       "start_btn (receive (run ?e w) (on_start ?e ?s))"
       "thread (receive (run ?e w) (on_start ?e ?s)) = None"
    by blast
  have r: "run ?e w = [Log collecting_info, Progress 50 [], Progress 100 merging, Finished]"
    by (rule test_run_returned)
  from h(4) have "\<not> start_btn (receive (take 3 (run ?e w)) (on_start ?e ?s))"
    unfolding r by (metis length_Cons list.size(3) numeral_3_eq_3 lessI)
  then have d: "\<not> start_btn (receive [Log collecting_info, Progress 50 [], Progress 100 merging]
        (on_start ?e ?s))"
    unfolding r by simp
  show ?thesis using a b c h(1,2,3) d h(5,6)[unfolded r] by blast
qed

end
